theory Spec2Isabelle
  imports Main "HOL-Library.Word" "HOL-Library.AList"
begin

unbundle bit_operations_syntax

section \<open>Python values, exceptions and strings\<close>

text \<open>
  The agent is Python code. An exception is a value of type \<open>error\<close>; a call either
  returns or raises, and whatever it had already mutated stays mutated.
\<close>

datatype error =
    KeyError
  | AttributeError
  | TypeError
  | AddrFormatError
  | ExhaustedError
  | PrimitiveFailure

datatype 'a outcome = Return 'a | Raise error

text \<open>\<^verbatim>\<open>s.split(c)\<close> for a one-character separator.\<close>

fun split_on :: "char \<Rightarrow> string \<Rightarrow> string list" where
  "split_on c [] = [[]]"
| "split_on c (x # xs) =
     (if x = c then [] # split_on c xs
      else (case split_on c xs of
              [] \<Rightarrow> [[x]]
            | y # ys \<Rightarrow> (x # y) # ys))"

section \<open>The libraries \<open>binascii\<close> and \<open>netaddr\<close>\<close>

subsection \<open>\<open>binascii.crc32\<close>\<close>

text \<open>
  The CRC-32 of zlib: reflected polynomial \<open>0xEDB88320\<close>, initial value and final
  complement \<open>0xFFFFFFFF\<close>. Python 2 returns it as a signed 32-bit integer, which is why
  \<open>_get_snat_idx\<close> masks the result.
\<close>

definition crc32_shift :: "32 word \<Rightarrow> 32 word" where
  "crc32_shift c = (if bit c 0 then drop_bit 1 c XOR 0xEDB88320 else drop_bit 1 c)"

definition crc32_byte :: "32 word \<Rightarrow> char \<Rightarrow> 32 word" where
  "crc32_byte c b =
     crc32_shift (crc32_shift (crc32_shift (crc32_shift
    (crc32_shift (crc32_shift (crc32_shift (crc32_shift (c XOR of_char b))))))))"

definition crc32 :: "string \<Rightarrow> int" where
  "crc32 s = sint (foldl crc32_byte 0xFFFFFFFF s XOR 0xFFFFFFFF)"

subsection \<open>\<open>netaddr.IPNetwork\<close>\<close>

text \<open>
  What \<open>_get_snat_idx\<close> reads of an \<open>IPNetwork\<close> object: the IP version and \<open>value\<close>, the
  integer of the address as it is written in the string (host bits are kept). The prefix
  length is there to say what the base address of the network is.
\<close>

record ipnetwork =
  net_version :: nat
  net_value :: int
  net_prefixlen :: nat

definition net_width :: "ipnetwork \<Rightarrow> nat" where
  "net_width net = (if net_version net = 6 then 128 else 32)"

text \<open>\<open>IPNetwork.first\<close>: the integer of the base address, \<open>value & (max_int ^ hostmask)\<close>.\<close>

definition net_first :: "ipnetwork \<Rightarrow> int" where
  "net_first net =
     net_value net AND (mask (net_width net) XOR mask (net_width net - net_prefixlen net))"

text \<open>
  The constructor on the textual forms \<open>a.b.c.d\<close> and \<open>a.b.c.d/n\<close> (decimal octets) and
  on IPv6 addresses in hexadecimal groups with at most one \<open>::\<close>, with or without
  \<open>/n\<close>. \<open>None\<close> stands for \<open>AddrFormatError\<close>.
\<close>

definition dec_digit :: "char \<Rightarrow> int option" where
  "dec_digit c =
     (let n = (of_char c :: int) in if 48 \<le> n \<and> n \<le> 57 then Some (n - 48) else None)"

definition hex_digit :: "char \<Rightarrow> int option" where
  "hex_digit c =
     (let n = (of_char c :: int) in
      if 48 \<le> n \<and> n \<le> 57 then Some (n - 48)
      else if 97 \<le> n \<and> n \<le> 102 then Some (n - 87)
      else if 65 \<le> n \<and> n \<le> 70 then Some (n - 55)
      else None)"

fun digits_value :: "int \<Rightarrow> (char \<Rightarrow> int option) \<Rightarrow> int \<Rightarrow> string \<Rightarrow> int option" where
  "digits_value b d acc [] = Some acc"
| "digits_value b d acc (c # cs) =
     (case d c of None \<Rightarrow> None | Some n \<Rightarrow> digits_value b d (acc * b + n) cs)"

definition parse_number :: "int \<Rightarrow> (char \<Rightarrow> int option) \<Rightarrow> string \<Rightarrow> int option" where
  "parse_number b d s = (if s = [] then None else digits_value b d 0 s)"

fun all_some :: "'a option list \<Rightarrow> 'a list option" where
  "all_some [] = Some []"
| "all_some (None # xs) = None"
| "all_some (Some x # xs) = (case all_some xs of None \<Rightarrow> None | Some ys \<Rightarrow> Some (x # ys))"

definition parse_ipv4 :: "string \<Rightarrow> int option" where
  "parse_ipv4 s =
     (case all_some (map (parse_number 10 dec_digit) (split_on CHR ''.'' s)) of
        None \<Rightarrow> None
      | Some os \<Rightarrow>
          if length os = 4 \<and> list_all (\<lambda>n. n \<le> 255) os
          then Some (foldl (\<lambda>acc n. acc * 256 + n) 0 os)
          else None)"

definition hextets :: "string list \<Rightarrow> int list option" where
  "hextets gs =
     (if list_all (\<lambda>g. length g \<le> 4) gs
      then all_some (map (parse_number 16 hex_digit) gs) else None)"

definition parse_ipv6 :: "string \<Rightarrow> int option" where
  "parse_ipv6 s =
     (let gs = split_on CHR '':'' s;
          lead = (take 2 gs = [[], []]);
          trail = (2 \<le> length gs \<and> drop (length gs - 2) gs = [[], []]);
          gs1 = (if lead then tl gs else gs);
          gs2 = (if trail \<and> 2 \<le> length gs1 then butlast gs1 else gs1)
      in if (hd gs = [] \<and> \<not> lead) \<or> (last gs = [] \<and> \<not> trail) then None
         else if [] \<in> set gs2 then
           (case (hextets (takeWhile (\<lambda>g. g \<noteq> []) gs2),
                  hextets (tl (dropWhile (\<lambda>g. g \<noteq> []) gs2))) of
              (Some l, Some r) \<Rightarrow>
                if length l + length r \<le> 7
                then Some (foldl (\<lambda>acc n. acc * 65536 + n) 0
                             (l @ replicate (8 - length l - length r) 0 @ r))
                else None
            | _ \<Rightarrow> None)
         else
           (case hextets gs2 of
              Some l \<Rightarrow>
                if length l = 8 then Some (foldl (\<lambda>acc n. acc * 65536 + n) 0 l)
                else None
            | None \<Rightarrow> None))"

definition parse_address :: "string \<Rightarrow> (nat \<times> int) option" where
  "parse_address a =
     (case parse_ipv4 a of
        Some v \<Rightarrow> Some (4, v)
      | None \<Rightarrow> (case parse_ipv6 a of Some v \<Rightarrow> Some (6, v) | None \<Rightarrow> None))"

definition netaddr_IPNetwork :: "string \<Rightarrow> ipnetwork option" where
  "netaddr_IPNetwork s =
     (case split_on CHR ''/'' s of
        [a] \<Rightarrow>
          (case parse_address a of
             None \<Rightarrow> None
           | Some (ver, v) \<Rightarrow>
               Some \<lparr>net_version = ver, net_value = v,
                     net_prefixlen = (if ver = 6 then 128 else 32)\<rparr>)
      | [a, p] \<Rightarrow>
          (case (parse_address a, parse_number 10 dec_digit p) of
             (Some (ver, v), Some n) \<Rightarrow>
               if n \<le> (if ver = 6 then 128 else 32)
               then Some \<lparr>net_version = ver, net_value = v, net_prefixlen = nat n\<rparr>
               else None
           | _ \<Rightarrow> None)
      | _ \<Rightarrow> None)"

section \<open>The collaborators of the agent\<close>

text \<open>
  The agent drives the kernel and other processes through \<open>ip_lib\<close>, the metadata driver
  and the FIP namespace object. None of them is part of the agent: each invocation is
  recorded, with the arguments the agent passes, in the order the agent makes them.
\<close>

datatype call =
    IpRule_add string string int int
      \<comment> \<open>namespace; \<open>add(ip, table, priority)\<close>\<close>
  | IpRule_delete string string int int
      \<comment> \<open>namespace; \<open>delete(ip, table, priority)\<close>\<close>
  | route_add_route string string string string
      \<comment> \<open>namespace, device; \<open>add_route(cidr, via)\<close>\<close>
  | route_delete_route string string string string
      \<comment> \<open>namespace, device; \<open>delete_route(cidr, via)\<close>\<close>
  | route_add_gateway string string string int
      \<comment> \<open>namespace, device; \<open>add_gateway(gateway, table)\<close>\<close>
  | route_delete_gateway string string "string option" int
      \<comment> \<open>namespace, device; \<open>delete_gateway(gateway, table)\<close>, the gateway when it is passed\<close>
  | netns_execute string "string list"
      \<comment> \<open>namespace; \<open>netns.execute(cmd)\<close>\<close>
  | send_garp_for_proxyarp string string string
      \<comment> \<open>namespace, interface, floating ip\<close>
  | del_veth string string
      \<comment> \<open>namespace; \<open>del_veth(name)\<close>\<close>
  | neigh_add string string nat string string
      \<comment> \<open>namespace, device; \<open>neigh.add(version, ip, mac)\<close>\<close>
  | neigh_delete string string nat string string
      \<comment> \<open>namespace, device; \<open>neigh.delete(version, ip, mac)\<close>\<close>
  | spawn_monitored_metadata_proxy string string
      \<comment> \<open>\<open>ns_name\<close>, \<open>router_id\<close>\<close>
  | destroy_monitored_metadata_proxy string string
      \<comment> \<open>\<open>router_id\<close>, \<open>ns_name\<close>\<close>
  | FipNamespace_destroy nat
      \<comment> \<open>\<open>fip_ns.destroy()\<close> on the namespace object at this reference\<close>

datatype log_entry =
    LOG_debug string
  | LOG_info string
  | LOG_error string
  | LOG_exception string

section \<open>What the agent is given\<close>

text \<open>
  The modules the agent imports are not part of it, so what they do is a parameter of the
  model: \<open>IPNetwork\<close> is the constructor of \<open>netaddr\<close>, with \<open>None\<close> for a string it
  rejects; \<open>fails\<close> says which invocations of a collaborator raise; the constants and the
  device names come from \<open>dvr_fip_ns\<close> and from the agent's base class; the two pools are
  what a new FIP namespace starts with.
\<close>

record env =
  IPNetwork :: "string \<Rightarrow> ipnetwork option"
  fails :: "call \<Rightarrow> bool"
  FIP_NS_PREFIX :: string
  FIP_RT_TBL :: int
  get_int_device_name :: "string \<Rightarrow> string"
  get_rtr_ext_device_name :: "string \<Rightarrow> string"
  get_ext_device_name :: "string \<Rightarrow> string"
  get_internal_device_name :: "string \<Rightarrow> string"
  fip_rule_priorities :: "int list"
  fip_link_subnets :: "(string \<times> string) list"

section \<open>Programs\<close>

text \<open>
  A method is a function from the state to an outcome and the state it leaves.
\<close>

type_synonym ('s, 'a) prog = "'s \<Rightarrow> 'a outcome \<times> 's"

definition ret :: "'a \<Rightarrow> ('s, 'a) prog" where
  "ret a s = (Return a, s)"

definition raise :: "error \<Rightarrow> ('s, 'a) prog" where
  "raise err s = (Raise err, s)"

definition andthen :: "('s, 'a) prog \<Rightarrow> ('a \<Rightarrow> ('s, 'b) prog) \<Rightarrow> ('s, 'b) prog" where
  "andthen m f s =
     (case m s of
        (Return a, s') \<Rightarrow> f a s'
      | (Raise err, s') \<Rightarrow> (Raise err, s'))"

text \<open>\<^verbatim>\<open>try: m  except Exception: h\<close>\<close>

definition try_except :: "('s, unit) prog \<Rightarrow> ('s, unit) prog \<Rightarrow> ('s, unit) prog" where
  "try_except m h s =
     (case m s of
        (Return a, s') \<Rightarrow> (Return a, s')
      | (Raise err, s') \<Rightarrow> h s')"

definition get_state :: "('s, 's) prog" where
  "get_state s = (Return s, s)"

definition modify :: "('s \<Rightarrow> 's) \<Rightarrow> ('s, unit) prog" where
  "modify f s = (Return (), f s)"

definition lift_outcome :: "'a outcome \<Rightarrow> ('s, 'a) prog" where
  "lift_outcome out s = (out, s)"

section \<open>The state of the agent\<close>

subsection \<open>Ports, routers\<close>

record fixed_ip =
  fixed_subnet_id :: string
  fixed_ip_address :: string

text \<open>A port dictionary; \<open>port_ip_cidr\<close>, the entry \<open>ip_cidr\<close>, is \<open>None\<close> when the key is not set.\<close>

record port =
  port_id :: string
  fixed_ips :: "fixed_ip list"
  port_ip_cidr :: "string option"

text \<open>The router dictionary \<open>ri.router\<close>; \<open>interfaces\<close> is the entry at \<open>INTERFACE_KEY\<close>.\<close>

record router_dict =
  distributed :: bool
  interfaces :: "port list option"

record RouterInfo =
  router_id :: string
  ns_name :: string
  router :: router_dict
  floating_ips_dict :: "(string \<times> int) list"
  dist_fip_count :: int
  rtr_fip_subnet :: "(string \<times> string) option"
  fip_ns :: "nat option"

text \<open>The floating IP dictionary a caller passes to \<open>floating_ip_added_dist\<close>.\<close>

record floating_ip =
  floating_ip_address :: string
  fip_fixed_ip_address :: string

text \<open>The payload of the ARP notifications.\<close>

record arp_table =
  arp_ip_address :: string
  arp_mac_address :: string
  arp_subnet_id :: string

record payload =
  payload_arp_table :: arp_table
  payload_router_id :: string

subsection \<open>The FIP namespace\<close>

text \<open>
  The module \<open>dvr_fip_ns\<close>, with the class \<open>FipNamespace\<close>, its rule-priority allocator
  and its pool of link-local subnets, is not among the sources. The definitions of this
  subsection follow what the specification says of them.
\<close>

text \<open>
  Modelled from the spec: the pool of point-to-point subnets (\<open>local_subnets\<close>, absent with
  \<open>dvr_fip_ns\<close>). A lease is the pair of addresses of the link; \<open>allocations\<close> are the
  leases held, by router, \<open>pool\<close> the free ones.
\<close>

record LinkLocalAllocator =
  allocations :: "(string \<times> (string \<times> string)) list"
  pool :: "(string \<times> string) list"

text \<open>
  Modelled from the spec: the attributes of a \<open>FipNamespace\<close> (class absent with
  \<open>dvr_fip_ns\<close>): the external network, the set of subscribed routers, the free rule
  priorities, the subnet pool, and the id of the agent gateway port once there is one.
\<close>

record FipNamespace =
  fns_ext_net_id :: string
  subscribers :: "string set"
  rule_priorities :: "int list"
  local_subnets :: LinkLocalAllocator
  agent_gateway_port :: "string option"

text \<open>
  Modelled from the spec: the constructor \<open>FipNamespace(ext_net_id, ...)\<close>, absent with
  \<open>dvr_fip_ns\<close>. A new namespace has no subscriber, no gateway port and full pools.
\<close>

definition new_FipNamespace :: "env \<Rightarrow> string \<Rightarrow> FipNamespace" where
  "new_FipNamespace e ext_net_id =
     \<lparr>fns_ext_net_id = ext_net_id, subscribers = {},
      rule_priorities = fip_rule_priorities e,
      local_subnets = \<lparr>allocations = [], pool = fip_link_subnets e\<rparr>,
      agent_gateway_port = None\<rparr>"

text \<open>
  Modelled from the spec: \<open>FipNamespace.get_name\<close>, absent with \<open>dvr_fip_ns\<close>. The name
  of the namespace is the prefix followed by the external network id, which is what
  \<open>_destroy_fip_namespace\<close> takes apart.
\<close>

definition get_name :: "env \<Rightarrow> FipNamespace \<Rightarrow> string" where
  "get_name e fns = FIP_NS_PREFIX e @ fns_ext_net_id fns"

text \<open>
  Modelled from the spec: \<open>local_subnets.allocate\<close>, absent with \<open>dvr_fip_ns\<close>. A router
  that holds a lease is given it again; otherwise a free subnet is leased, and there is an
  error when none is free.
\<close>

definition allocate :: "string \<Rightarrow> (LinkLocalAllocator, string \<times> string) prog" where
  "allocate key a =
     (case map_of (allocations a) key of
        Some l \<Rightarrow> (Return l, a)
      | None \<Rightarrow>
          (case pool a of
             [] \<Rightarrow> (Raise ExhaustedError, a)
           | l # ls \<Rightarrow>
               (Return l, a\<lparr>allocations := AList.update key l (allocations a), pool := ls\<rparr>)))"

text \<open>
  Modelled from the spec: \<open>local_subnets.release\<close>, absent with \<open>dvr_fip_ns\<close>. The lease
  of the router goes back to the pool; releasing for a router without a lease does nothing.
\<close>

definition release :: "string \<Rightarrow> (LinkLocalAllocator, unit) prog" where
  "release key a =
     (case map_of (allocations a) key of
        None \<Rightarrow> (Return (), a)
      | Some l \<Rightarrow>
          (Return (), a\<lparr>allocations := AList.delete key (allocations a), pool := pool a @ [l]\<rparr>))"

text \<open>\<open>fip_ns.local_subnets.release(key)\<close>\<close>

definition local_subnets_release :: "string \<Rightarrow> (FipNamespace, unit) prog" where
  "local_subnets_release key fns =
     (case release key (local_subnets fns) of
        (out, a) \<Rightarrow> (out, fns\<lparr>local_subnets := a\<rparr>))"

text \<open>
  Modelled from the spec: \<open>FipNamespace.allocate_rule_priority\<close>, absent with
  \<open>dvr_fip_ns\<close>. A priority is taken from the free ones; there is an error when the range
  is used up.
\<close>

definition allocate_rule_priority :: "(FipNamespace, int) prog" where
  "allocate_rule_priority fns =
     (case rule_priorities fns of
        [] \<Rightarrow> (Raise ExhaustedError, fns)
      | p # ps \<Rightarrow> (Return p, fns\<lparr>rule_priorities := ps\<rparr>))"

text \<open>
  Modelled from the spec: \<open>FipNamespace.deallocate_rule_priority\<close>, absent with
  \<open>dvr_fip_ns\<close>. The priority is free again.
\<close>

definition deallocate_rule_priority :: "int \<Rightarrow> (FipNamespace, unit) prog" where
  "deallocate_rule_priority p fns = (Return (), fns\<lparr>rule_priorities := rule_priorities fns @ [p]\<rparr>)"

text \<open>
  Modelled from the spec: \<open>FipNamespace.unsubscribe\<close>, absent with \<open>dvr_fip_ns\<close>. It
  removes the router from the subscriber set and returns whether the set is now empty.
\<close>

definition unsubscribe :: "string \<Rightarrow> (FipNamespace, bool) prog" where
  "unsubscribe rid fns =
     (let subs = subscribers fns - {rid} in (Return (subs = {}), fns\<lparr>subscribers := subs\<rparr>))"

subsection \<open>The agent\<close>

text \<open>
  \<open>heap\<close> holds the \<open>FipNamespace\<close> objects, a reference being a position in it, so that
  the routers of one external network share one object. \<open>router_info\<close> and
  \<open>agent_local_subnets\<close> are \<open>None\<close> when the agent object has no such attribute.
  \<open>trace\<close> is every invocation of a collaborator so far, \<open>logged\<close> every log line.
  The state of the methods that mutate a router is the router with the agent.
\<close>

record world =
  fip_namespaces :: "(string \<times> nat) list"
  router_info :: "(string \<times> RouterInfo) list option"
  agent_local_subnets :: "LinkLocalAllocator option"
  fullsync :: bool
  heap :: "FipNamespace list"
  trace :: "call list"
  logged :: "log_entry list"

text \<open>
  An invocation of a collaborator is recorded whether it returns or raises; when it raises,
  the exception is the caller's to handle.
\<close>

definition call :: "env \<Rightarrow> call \<Rightarrow> (world, unit) prog" where
  "call e c w =
     (let w' = w\<lparr>trace := trace w @ [c]\<rparr>
      in if fails e c then (Raise PrimitiveFailure, w') else (Return (), w'))"

definition LOG :: "log_entry \<Rightarrow> (world, unit) prog" where
  "LOG l w = (Return (), w\<lparr>logged := logged w @ [l]\<rparr>)"

definition on_agent :: "(world, 'a) prog \<Rightarrow> (RouterInfo \<times> world, 'a) prog" where
  "on_agent m s = (case s of (ri, w) \<Rightarrow> (case m w of (out, w') \<Rightarrow> (out, (ri, w'))))"

definition on_ri :: "(RouterInfo \<Rightarrow> RouterInfo) \<Rightarrow> (RouterInfo \<times> world, unit) prog" where
  "on_ri f s = (case s of (ri, w) \<Rightarrow> (Return (), (f ri, w)))"

text \<open>
  \<open>ri.fip_ns\<close> as the receiver of a method call or an attribute access: the reference,
  or \<open>AttributeError\<close> when there is no object.
\<close>

definition ri_fip_ns :: "(RouterInfo \<times> world, nat) prog" where
  "ri_fip_ns s =
     (case s of (ri, w) \<Rightarrow>
        (case fip_ns ri of
           None \<Rightarrow> (Raise AttributeError, s)
         | Some r \<Rightarrow> if r < length (heap w) then (Return r, s) else (Raise AttributeError, s)))"

text \<open>A method of the namespace object at a reference.\<close>

definition at_fip_ns :: "nat \<Rightarrow> (FipNamespace, 'a) prog \<Rightarrow> (RouterInfo \<times> world, 'a) prog" where
  "at_fip_ns r m s =
     (case s of (ri, w) \<Rightarrow>
        (case m (heap w ! r) of
           (out, fns) \<Rightarrow> (out, (ri, w\<lparr>heap := (heap w)[r := fns]\<rparr>))))"

text \<open>\<open>ri.rtr_fip_subnet.get_pair()\<close>\<close>

definition rtr_fip_subnet_get_pair :: "(RouterInfo \<times> world, string \<times> string) prog" where
  "rtr_fip_subnet_get_pair s =
     (case s of (ri, w) \<Rightarrow>
        (case rtr_fip_subnet ri of
           None \<Rightarrow> (Raise AttributeError, s)
         | Some l \<Rightarrow> (Return l, s)))"

text \<open>\<open>ri.rtr_fip_subnet = self.local_subnets.allocate(ri.router_id)\<close>\<close>

definition allocate_rtr_fip_subnet :: "(RouterInfo \<times> world, unit) prog" where
  "allocate_rtr_fip_subnet s =
     (case s of (ri, w) \<Rightarrow>
        (case agent_local_subnets w of
           None \<Rightarrow> (Raise AttributeError, s)
         | Some a \<Rightarrow>
             (case allocate (router_id ri) a of
                (Raise err, a') \<Rightarrow> (Raise err, (ri, w\<lparr>agent_local_subnets := Some a'\<rparr>))
              | (Return l, a') \<Rightarrow>
                  (Return (), (ri\<lparr>rtr_fip_subnet := Some l\<rparr>, w\<lparr>agent_local_subnets := Some a'\<rparr>)))))"

text \<open>\<open>ri.fip_ns.agent_gateway_port['id']\<close>\<close>

definition agent_gateway_port_id :: "nat \<Rightarrow> (RouterInfo \<times> world, string) prog" where
  "agent_gateway_port_id r s =
     (case s of (ri, w) \<Rightarrow>
        (case agent_gateway_port (heap w ! r) of
           None \<Rightarrow> (Raise TypeError, s)
         | Some i \<Rightarrow> (Return i, s)))"

text \<open>\<open>self.router_info[router_id]\<close> and \<open>self.router_info.get(router_id)\<close>\<close>

definition router_info_getitem :: "string \<Rightarrow> (world, RouterInfo) prog" where
  "router_info_getitem rid w =
     (case router_info w of
        None \<Rightarrow> (Raise AttributeError, w)
      | Some d \<Rightarrow>
          (case map_of d rid of
             None \<Rightarrow> (Raise KeyError, w)
           | Some ri \<Rightarrow> (Return ri, w)))"

definition router_info_get :: "string \<Rightarrow> (world, RouterInfo option) prog" where
  "router_info_get rid w =
     (case router_info w of
        None \<Rightarrow> (Raise AttributeError, w)
      | Some d \<Rightarrow> (Return (map_of d rid), w))"

section \<open>\<open>dvr.AgentMixin\<close>\<close>

subsection \<open>\<open>get_fip_ns\<close>, \<open>_destroy_fip_namespace\<close>\<close>

text \<open>The argument of \<open>get_fip_ns\<close> is a byte string or a unicode string; \<open>str\<close> gives the bytes.\<close>

datatype pystr = Str string | Unicode string

fun str :: "pystr \<Rightarrow> string" where
  "str (Str s) = s"
| "str (Unicode s) = s"

definition get_fip_ns :: "env \<Rightarrow> pystr \<Rightarrow> (world, nat) prog" where
  "get_fip_ns e ext_net_id w =
     (let ext_net_id = str ext_net_id in
      case map_of (fip_namespaces w) ext_net_id of
        Some r \<Rightarrow> (Return r, w)
      | None \<Rightarrow>
          (let r = length (heap w)
           in (Return r,
               w\<lparr>heap := heap w @ [new_FipNamespace e ext_net_id],
                 fip_namespaces := AList.update ext_net_id r (fip_namespaces w)\<rparr>)))"

text \<open>\<open>del self._fip_namespaces[key]\<close>\<close>

definition del_fip_namespaces :: "string \<Rightarrow> (world, unit) prog" where
  "del_fip_namespaces key w =
     (case map_of (fip_namespaces w) key of
        None \<Rightarrow> (Raise KeyError, w)
      | Some r \<Rightarrow> (Return (), w\<lparr>fip_namespaces := AList.delete key (fip_namespaces w)\<rparr>))"

definition destroy_fip_namespace :: "env \<Rightarrow> string \<Rightarrow> (world, unit) prog" where
  "destroy_fip_namespace e ns =
     (let ex_net_id = drop (length (FIP_NS_PREFIX e)) ns in
      andthen (get_fip_ns e (Str ex_net_id)) (\<lambda>fip_ns.
      andthen (del_fip_namespaces ex_net_id) (\<lambda>_.
      call e (FipNamespace_destroy fip_ns))))"

subsection \<open>\<open>get_internal_port\<close>\<close>

fun find_port :: "string \<Rightarrow> port list \<Rightarrow> port option" where
  "find_port subnet_id [] = None"
| "find_port subnet_id (p # ps) =
     (if list_ex (\<lambda>f. fixed_subnet_id f = subnet_id) (fixed_ips p) then Some p
      else find_port subnet_id ps)"

definition get_internal_port :: "RouterInfo \<Rightarrow> string \<Rightarrow> port option" where
  "get_internal_port ri subnet_id =
     find_port subnet_id (case interfaces (router ri) of None \<Rightarrow> [] | Some ps \<Rightarrow> ps)"

subsection \<open>\<open>_get_snat_idx\<close>\<close>

definition MASK_30 :: int where
  "MASK_30 = 0x3fffffff"

definition get_snat_idx :: "env \<Rightarrow> string \<Rightarrow> int outcome" where
  "get_snat_idx e ip_cidr =
     (case IPNetwork e ip_cidr of
        None \<Rightarrow> Raise AddrFormatError
      | Some net \<Rightarrow>
          if net_version net = 6 then
            (let snat_idx = crc32 ip_cidr AND 0xffffffff;
                 snat_idx = drop_bit 30 snat_idx XOR (snat_idx AND MASK_30)
             in if snat_idx < 32768 then Return (snat_idx + MASK_30) else Return snat_idx)
          else Return (net_value net))"

subsection \<open>\<open>floating_ip_added_dist\<close>, \<open>floating_ip_removed_dist\<close>\<close>

definition floating_ip_added_dist :: "env \<Rightarrow> floating_ip \<Rightarrow> string \<Rightarrow> (RouterInfo \<times> world, unit) prog" where
  "floating_ip_added_dist e fip fip_cidr =
     (let floating_ip = floating_ip_address fip;
          fixed_ip = fip_fixed_ip_address fip in
      andthen ri_fip_ns (\<lambda>fns.
      andthen (at_fip_ns fns allocate_rule_priority) (\<lambda>rule_pr.
      andthen (on_ri (\<lambda>ri. ri\<lparr>floating_ips_dict :=
                  AList.update floating_ip rule_pr (floating_ips_dict ri)\<rparr>)) (\<lambda>_.
      andthen get_state (\<lambda>(ri, w).
      let fip_2_rtr_name = get_int_device_name e (router_id ri) in
      andthen (on_agent (call e (IpRule_add (ns_name ri) fixed_ip (FIP_RT_TBL e) rule_pr))) (\<lambda>_.
      let fip_ns_name = get_name e (heap w ! fns) in
      andthen rtr_fip_subnet_get_pair (\<lambda>(rtr_2_fip, _).
      andthen (on_agent (call e
                 (route_add_route fip_ns_name fip_2_rtr_name fip_cidr rtr_2_fip))) (\<lambda>_.
      andthen (agent_gateway_port_id fns) (\<lambda>gw_port_id.
      let interface_name = get_ext_device_name e gw_port_id in
      andthen (on_agent (call e
                 (send_garp_for_proxyarp fip_ns_name interface_name floating_ip))) (\<lambda>_.
      on_ri (\<lambda>ri. ri\<lparr>dist_fip_count := dist_fip_count ri + 1\<rparr>)))))))))))"

definition floating_ip_removed_dist :: "env \<Rightarrow> string \<Rightarrow> (RouterInfo \<times> world, unit) prog" where
  "floating_ip_removed_dist e fip_cidr =
     (let floating_ip = hd (split_on CHR ''/'' fip_cidr) in
      andthen ri_fip_ns (\<lambda>fns.
      andthen get_state (\<lambda>(ri, w).
      let rtr_2_fip_name = get_rtr_ext_device_name e (router_id ri);
          fip_2_rtr_name = get_int_device_name e (router_id ri) in
      andthen (if rtr_fip_subnet ri = None then allocate_rtr_fip_subnet else ret ()) (\<lambda>_.
      andthen rtr_fip_subnet_get_pair (\<lambda>(rtr_2_fip, fip_2_rtr).
      let fip_ns_name = get_name e (heap w ! fns) in
      andthen (case map_of (floating_ips_dict ri) floating_ip of
                 Some rule_pr \<Rightarrow>
                   andthen (on_agent (call e
                              (IpRule_delete (ns_name ri) floating_ip (FIP_RT_TBL e) rule_pr))) (\<lambda>_.
                   at_fip_ns fns (deallocate_rule_priority rule_pr))
               | None \<Rightarrow> ret ()) (\<lambda>_.
      andthen (on_agent (call e
                 (route_delete_route fip_ns_name fip_2_rtr_name fip_cidr rtr_2_fip))) (\<lambda>_.
      andthen (on_ri (\<lambda>ri. ri\<lparr>dist_fip_count := dist_fip_count ri - 1\<rparr>)) (\<lambda>_.
      andthen get_state (\<lambda>(ri, w).
      if dist_fip_count ri = 0 then
        andthen (on_agent (call e
                   (route_delete_gateway (ns_name ri) rtr_2_fip_name (Some fip_2_rtr)
                      (FIP_RT_TBL e)))) (\<lambda>_.
        andthen (at_fip_ns fns (local_subnets_release (router_id ri))) (\<lambda>_.
        andthen (on_ri (\<lambda>ri. ri\<lparr>rtr_fip_subnet := None\<rparr>)) (\<lambda>_.
        andthen (on_agent (call e (del_veth fip_ns_name fip_2_rtr_name))) (\<lambda>_.
        andthen (at_fip_ns fns (unsubscribe (router_id ri))) (\<lambda>is_last.
        if is_last then on_agent (destroy_fip_namespace e fip_ns_name) else ret ())))))
      else ret ())))))))))"

subsection \<open>\<open>_snat_redirect_add\<close>, \<open>_snat_redirect_remove\<close>\<close>

text \<open>\<open>sn_port['ip_cidr']\<close>\<close>

definition sn_port_ip_cidr :: "port \<Rightarrow> (world, string) prog" where
  "sn_port_ip_cidr sn_port =
     (case port_ip_cidr sn_port of None \<Rightarrow> raise KeyError | Some c \<Rightarrow> ret c)"

definition snat_redirect_add :: "env \<Rightarrow> RouterInfo \<Rightarrow> string \<Rightarrow> port \<Rightarrow> string \<Rightarrow> (world, unit) prog" where
  "snat_redirect_add e ri gateway sn_port sn_int =
     try_except
       (andthen (sn_port_ip_cidr sn_port) (\<lambda>ip_cidr.
        andthen (lift_outcome (get_snat_idx e ip_cidr)) (\<lambda>snat_idx.
        andthen (call e (route_add_gateway (ns_name ri) sn_int gateway snat_idx)) (\<lambda>_.
        andthen (call e (IpRule_add (ns_name ri) ip_cidr snat_idx snat_idx)) (\<lambda>_.
        call e (netns_execute (ns_name ri)
                  [''sysctl'', ''-w'', ''net.ipv4.conf.'' @ sn_int @ ''.send_redirects=0'']))))))
       (LOG (LOG_exception ''DVR: error adding redirection logic''))"

definition snat_redirect_remove :: "env \<Rightarrow> RouterInfo \<Rightarrow> port \<Rightarrow> string \<Rightarrow> (world, unit) prog" where
  "snat_redirect_remove e ri sn_port sn_int =
     try_except
       (andthen (sn_port_ip_cidr sn_port) (\<lambda>ip_cidr.
        andthen (lift_outcome (get_snat_idx e ip_cidr)) (\<lambda>snat_idx.
        andthen (call e (route_delete_gateway (ns_name ri) sn_int None snat_idx)) (\<lambda>_.
        call e (IpRule_delete (ns_name ri) ip_cidr snat_idx snat_idx)))))
       (LOG (LOG_exception ''DVR: removed snat failed''))"

subsection \<open>\<open>_update_arp_entry\<close>, \<open>add_arp_entry\<close>, \<open>del_arp_entry\<close>\<close>

definition update_arp_entry :: "env \<Rightarrow> RouterInfo \<Rightarrow> string \<Rightarrow> string \<Rightarrow> string \<Rightarrow> string \<Rightarrow> (world, unit) prog" where
  "update_arp_entry e ri ip mac subnet_id operation =
     (case get_internal_port ri subnet_id of
        None \<Rightarrow> ret ()
      | Some port \<Rightarrow>
          (let ip_cidr = ip @ ''/32'' in
           try_except
             (andthen (case IPNetwork e ip_cidr of
                         None \<Rightarrow> raise AddrFormatError
                       | Some net \<Rightarrow> ret net) (\<lambda>net.
              let interface_name = get_internal_device_name e (port_id port) in
              if operation = ''add'' then
                call e (neigh_add (ns_name ri) interface_name (net_version net) ip mac)
              else if operation = ''delete'' then
                call e (neigh_delete (ns_name ri) interface_name (net_version net) ip mac)
              else ret ()))
             (andthen (LOG (LOG_exception ''DVR: Failed updating arp entry'')) (\<lambda>_.
              modify (\<lambda>w. w\<lparr>fullsync := True\<rparr>)))))"

definition add_arp_entry :: "env \<Rightarrow> payload \<Rightarrow> (world, unit) prog" where
  "add_arp_entry e pl =
     (let arp_table = payload_arp_table pl;
          rid = payload_router_id pl;
          ip = arp_ip_address arp_table;
          mac = arp_mac_address arp_table;
          subnet_id = arp_subnet_id arp_table in
      andthen (router_info_get rid) (\<lambda>ri.
      case ri of
        None \<Rightarrow> ret ()
      | Some ri \<Rightarrow> update_arp_entry e ri ip mac subnet_id ''add''))"

definition del_arp_entry :: "env \<Rightarrow> payload \<Rightarrow> (world, unit) prog" where
  "del_arp_entry e pl =
     (let arp_table = payload_arp_table pl;
          rid = payload_router_id pl;
          ip = arp_ip_address arp_table;
          mac = arp_mac_address arp_table;
          subnet_id = arp_subnet_id arp_table in
      andthen (router_info_get rid) (\<lambda>ri.
      case ri of
        None \<Rightarrow> ret ()
      | Some ri \<Rightarrow> update_arp_entry e ri ip mac subnet_id ''delete''))"

section \<open>\<open>ha.AgentMixin\<close>\<close>

text \<open>
  \<^verbatim>\<open>try: ri = self.router_info[router_id]  except AttributeError: log, return\<close>:
  the handler takes \<open>AttributeError\<close> and nothing else.
\<close>

definition update_metadata_proxy :: "env \<Rightarrow> string \<Rightarrow> string \<Rightarrow> (world, unit) prog" where
  "update_metadata_proxy e rid state w =
     (case router_info_getitem rid w of
        (Raise AttributeError, w') \<Rightarrow>
          LOG (LOG_info ''Router %s is not managed by this agent. It was possibly deleted concurrently.'') w'
      | (Raise err, w') \<Rightarrow> (Raise err, w')
      | (Return ri, w') \<Rightarrow>
          (if state = ''master'' then
             andthen (LOG (LOG_debug ''Spawning metadata proxy for router %s'')) (\<lambda>_.
             call e (spawn_monitored_metadata_proxy (ns_name ri) (router_id ri))) w'
           else
             andthen (LOG (LOG_debug ''Closing metadata proxy for router %s'')) (\<lambda>_.
             call e (destroy_monitored_metadata_proxy (router_id ri) (ns_name ri))) w'))"

definition enqueue_state_change :: "env \<Rightarrow> string \<Rightarrow> string \<Rightarrow> (world, unit) prog" where
  "enqueue_state_change e rid state =
     andthen (LOG (LOG_info ''Router %(router_id)s transitioned to %(state)s'')) (\<lambda>_.
     update_metadata_proxy e rid state)"


section \<open>Sequences of calls\<close>

text \<open>One \<open>get_fip_ns\<close> call after the other, for the external networks of a list.\<close>

fun get_fip_ns_each :: "env \<Rightarrow> pystr list \<Rightarrow> world \<Rightarrow> world" where
  "get_fip_ns_each e [] w = w"
| "get_fip_ns_each e (x # xs) w = get_fip_ns_each e xs (snd (get_fip_ns e x w))"

text \<open>
  A sequence of \<open>floating_ip_added_dist\<close> and \<open>floating_ip_removed_dist\<close> calls on one
  router; an exception ends it.
\<close>

datatype fip_op = Added floating_ip string | Removed string

fun run_op :: "env \<Rightarrow> fip_op \<Rightarrow> (RouterInfo \<times> world, unit) prog" where
  "run_op e (Added fip fip_cidr) = floating_ip_added_dist e fip fip_cidr"
| "run_op e (Removed fip_cidr) = floating_ip_removed_dist e fip_cidr"

fun run_ops :: "env \<Rightarrow> fip_op list \<Rightarrow> (RouterInfo \<times> world, unit) prog" where
  "run_ops e [] = ret ()"
| "run_ops e (x # xs) = andthen (run_op e x) (\<lambda>_. run_ops e xs)"

fun count_change :: "fip_op \<Rightarrow> int" where
  "count_change (Added fip fip_cidr) = 1"
| "count_change (Removed fip_cidr) = - 1"

section \<open>Weakest preconditions\<close>

text \<open>
  \<open>wp m Q E s\<close>: running \<open>m\<close> from \<open>s\<close> ends in a state where \<open>Q\<close> holds of the value
  returned, or \<open>E\<close> of the exception raised.
\<close>

definition wp :: "('s, 'a) prog \<Rightarrow> ('a \<Rightarrow> 's \<Rightarrow> bool) \<Rightarrow> (error \<Rightarrow> 's \<Rightarrow> bool) \<Rightarrow> 's \<Rightarrow> bool" where
  "wp m Q E s = (case m s of (Return a, s') \<Rightarrow> Q a s' | (Raise err, s') \<Rightarrow> E err s')"

section \<open>An environment to run the agent in\<close>

text \<open>
  The values \<open>dvr_fip_ns\<close> and the interface driver use: namespaces named \<open>fip-\<close> and
  the network, rule table 16, device names cut at 14 characters, rule priorities from
  32768 on. No collaborator fails.
\<close>

definition example_env :: env where
  "example_env =
     \<lparr>IPNetwork = netaddr_IPNetwork,
      fails = (\<lambda>c. False),
      FIP_NS_PREFIX = ''fip-'',
      FIP_RT_TBL = 16,
      get_int_device_name = (\<lambda>rid. take 14 (''fpr-'' @ rid)),
      get_rtr_ext_device_name = (\<lambda>rid. take 14 (''rfp-'' @ rid)),
      get_ext_device_name = (\<lambda>pid. take 14 (''fg-'' @ pid)),
      get_internal_device_name = (\<lambda>pid. take 14 (''qr-'' @ pid)),
      fip_rule_priorities = [32768, 32769, 32770],
      fip_link_subnets = [(''169.254.31.28'', ''169.254.31.29''),
                          (''169.254.31.30'', ''169.254.31.31'')]\<rparr>"

text \<open>The same with every collaborator failing.\<close>

definition failing_env :: env where
  "failing_env = example_env\<lparr>fails := (\<lambda>c. True)\<rparr>"

text \<open>
  An agent that manages no router, and one that manages the router \<open>r1\<close>, which has one
  internal port on the subnet \<open>s1\<close>.
\<close>

definition empty_world :: world where
  "empty_world =
     \<lparr>fip_namespaces = [], router_info = Some [], agent_local_subnets = None,
      fullsync = False, heap = [], trace = [], logged = []\<rparr>"

definition router1 :: RouterInfo where
  "router1 =
     \<lparr>router_id = ''r1'', ns_name = ''qrouter-r1'',
      router = \<lparr>distributed = True,
                interfaces = Some [\<lparr>port_id = ''p1'',
                                    fixed_ips = [\<lparr>fixed_subnet_id = ''s1'', fixed_ip_address = ''10.0.0.1''\<rparr>],
                                    port_ip_cidr = Some ''10.0.0.1/24''\<rparr>]\<rparr>,
      floating_ips_dict = [], dist_fip_count = 0, rtr_fip_subnet = None, fip_ns = None\<rparr>"

definition managing_world :: world where
  "managing_world = empty_world\<lparr>router_info := Some [(''r1'', router1)]\<rparr>"

definition port1 :: port where
  "port1 = \<lparr>port_id = ''p1'',
            fixed_ips = [\<lparr>fixed_subnet_id = ''s1'', fixed_ip_address = ''10.0.0.1''\<rparr>],
            port_ip_cidr = Some ''10.0.0.1/24''\<rparr>"

text \<open>
  The router \<open>r1\<close> on the external network \<open>net1\<close>: it holds a lease and is subscribed
  to the FIP namespace of the network, which has a gateway port. \<open>fip_router\<close> has no
  floating IP yet, \<open>one_fip_router\<close> has 203.0.113.10 and \<open>two_fip_router\<close> 203.0.113.11 as
  well, each with the agent that goes with it; in \<open>shared_fip_world\<close> the router \<open>r2\<close> is
  subscribed to the same namespace.
\<close>

definition fip1 :: floating_ip where
  "fip1 = \<lparr>floating_ip_address = ''203.0.113.10'', fip_fixed_ip_address = ''10.0.0.5''\<rparr>"

definition fip_router :: RouterInfo where
  "fip_router =
     router1\<lparr>rtr_fip_subnet := Some (''169.254.31.28'', ''169.254.31.29''), fip_ns := Some 0\<rparr>"

definition fip_world :: world where
  "fip_world =
     \<lparr>fip_namespaces = [(''net1'', 0)],
      router_info = Some [],
      agent_local_subnets = None,
      fullsync = False,
      heap = [\<lparr>fns_ext_net_id = ''net1'', subscribers = {''r1''},
               rule_priorities = [32768, 32769, 32770],
               local_subnets =
                 \<lparr>allocations = [(''r1'', (''169.254.31.28'', ''169.254.31.29''))],
                  pool = [(''169.254.31.30'', ''169.254.31.31'')]\<rparr>,
               agent_gateway_port = Some ''gw1''\<rparr>],
      trace = [], logged = []\<rparr>"

definition one_fip_router :: RouterInfo where
  "one_fip_router =
     fip_router\<lparr>floating_ips_dict := [(''203.0.113.10'', 32768)], dist_fip_count := 1\<rparr>"

definition one_fip_world :: world where
  "one_fip_world =
     fip_world\<lparr>heap := [(heap fip_world ! 0)\<lparr>rule_priorities := [32769, 32770]\<rparr>]\<rparr>"

definition shared_fip_world :: world where
  "shared_fip_world =
     fip_world\<lparr>heap := [(heap fip_world ! 0)\<lparr>rule_priorities := [32769, 32770],
                                              subscribers := {''r1'', ''r2''}\<rparr>]\<rparr>"



text \<open>
  The namespace of \<open>net1\<close> was destroyed and made anew: the agent has registered the new
  object, to which the router \<open>r2\<close> is subscribed, and the router \<open>r1\<close> is back on the
  object it had, with one floating IP.
\<close>

definition stale_fip_world :: world where
  "stale_fip_world =
     one_fip_world\<lparr>fip_namespaces := [(''net1'', 1)],
       heap := [heap one_fip_world ! 0,
                \<lparr>fns_ext_net_id = ''net1'', subscribers = {''r2''},
                 rule_priorities = [32769, 32770],
                 local_subnets =
                   \<lparr>allocations = [(''r2'', (''169.254.31.28'', ''169.254.31.29''))],
                    pool = [(''169.254.31.30'', ''169.254.31.31'')]\<rparr>,
                 agent_gateway_port = Some ''gw2''\<rparr>]\<rparr>"

section \<open>The SNAT table index\<close>

lemma xor_fold_nonneg:
  "0 \<le> drop_bit 30 ((x::int) AND 0xffffffff) XOR ((x AND 0xffffffff) AND MASK_30)"
  by (simp add: MASK_30_def)

lemma host_bits_zero_iff:
  assumes "0 \<le> (v::int)" "v < 2 ^ 32" "p \<le> 32"
  shows "v AND (mask 32 XOR mask (32 - p)) = v \<longleftrightarrow> v AND mask (32 - p) = 0"
proof -
  have hi: "n < 32" if "bit v n" for n
  proof -
    have "take_bit 32 v = v" using assms by (simp add: take_bit_int_eq_self)
    then have "bit (take_bit 32 v) n" using that by simp
    then show ?thesis by (simp add: bit_take_bit_iff)
  qed
  show ?thesis
  proof
    assume l: "v AND (mask 32 XOR mask (32 - p)) = v"
    show "v AND mask (32 - p) = 0"
    proof (rule bit_eqI)
      fix n
      have "bit v n = bit (v AND (mask 32 XOR mask (32 - p))) n" using l by simp
      then show "bit (v AND mask (32 - p)) n = bit (0::int) n"
        by (auto simp: bit_and_iff bit_xor_iff bit_mask_iff)
    qed
  next
    assume r: "v AND mask (32 - p) = 0"
    show "v AND (mask 32 XOR mask (32 - p)) = v"
    proof (rule bit_eqI)
      fix n
      have "bit (v AND mask (32 - p)) n = False" using r by simp
      then show "bit (v AND (mask 32 XOR mask (32 - p))) n = bit v n"
        using hi[of n] by (auto simp: bit_and_iff bit_xor_iff bit_mask_iff)
    qed
  qed
qed

text \<open>
  A CIDR that \<open>netaddr\<close> accepts gives an index, and the index is at least 32768 exactly
  when the network is IPv6 or the integer of the IPv4 address is itself at least 32768:
  the IPv6 branch lifts what is below, the IPv4 branch returns the address value as it is.
\<close>

lemma get_snat_idx_ge_32768_iff:
  assumes "IPNetwork e ip_cidr = Some net"
  shows "\<exists>r. get_snat_idx e ip_cidr = Return r \<and>
           (32768 \<le> r \<longleftrightarrow> net_version net = 6 \<or> 32768 \<le> net_value net)"
proof (cases "net_version net = 6")
  case True
  define r0 where
    "r0 = drop_bit 30 (crc32 ip_cidr AND 0xffffffff) XOR ((crc32 ip_cidr AND 0xffffffff) AND MASK_30)"
  have nonneg: "0 \<le> r0"
    unfolding r0_def by (rule xor_fold_nonneg)
  have "get_snat_idx e ip_cidr = (if r0 < 32768 then Return (r0 + MASK_30) else Return r0)"
    using assms True by (simp add: get_snat_idx_def r0_def Let_def)
  moreover have "32768 \<le> r0 + MASK_30"
    using nonneg by (simp add: MASK_30_def)
  ultimately show ?thesis
    using True by auto
next
  case False
  then show ?thesis
    using assms by (simp add: get_snat_idx_def)
qed

lemma IPNetwork_fd00:
  "IPNetwork example_env ''fd00::1/64'' =
     Some \<lparr>net_version = 6, net_value = 336294682933583715844663186250927177729,
           net_prefixlen = 64\<rparr>"
  by code_simp

lemma get_snat_idx_fd00: "get_snat_idx example_env ''fd00::1/64'' = Return 235685361"
  by code_simp

lemma get_snat_idx_fd00_ge_32768:
  "IPNetwork example_env ''fd00::1/64'' =
     Some \<lparr>net_version = 6, net_value = 336294682933583715844663186250927177729,
           net_prefixlen = 64\<rparr> \<and>
   get_snat_idx example_env ''fd00::1/64'' = Return 235685361 \<and>
   (32768::int) \<le> 235685361"
  using get_snat_idx_ge_32768_iff [OF IPNetwork_fd00] get_snat_idx_fd00 IPNetwork_fd00
  by simp

text \<open>
  C3: the index has to be more than the entries the system generates, 32768, as the
  docstring of \<open>_get_snat_idx\<close> says and as the IPv6 branch sees to. The IPv4 branch does
  not: for \<open>0.0.1.0/24\<close> the index is 256, and for \<open>0.0.0.254/24\<close> it is 254, the main
  table of the kernel.
\<close>

theorem get_snat_idx_ipv4_below_32768:
  "get_snat_idx example_env ''0.0.1.0/24'' = Return 256 \<and> \<not> (32768::int) \<le> 256 \<and>
   get_snat_idx example_env ''0.0.0.254/24'' = Return 254 \<and> \<not> (32768::int) \<le> 254"
  by code_simp

text \<open>
  C7, as the code has it: the index is a function of the CIDR string and of what
  \<open>netaddr\<close> makes of it, and of nothing else; for an IPv4 network it is the integer of
  the address written in the string, which is the base address of the network exactly
  when the host bits of that address are zero.
\<close>

theorem get_snat_idx_ipv4_value:
  assumes "IPNetwork e ip_cidr = Some net" and "net_version net = 4"
    and "0 \<le> net_value net" and "net_value net < 2 ^ 32" and "net_prefixlen net \<le> 32"
  shows "get_snat_idx e ip_cidr = Return (net_value net) \<and>
         (get_snat_idx e ip_cidr = Return (net_first net) \<longleftrightarrow>
            net_value net AND mask (32 - net_prefixlen net) = 0) \<and>
         (\<forall>e'. IPNetwork e' = IPNetwork e \<longrightarrow> get_snat_idx e' ip_cidr = get_snat_idx e ip_cidr)"
proof -
  have val: "get_snat_idx e ip_cidr = Return (net_value net)"
    using assms(1,2) by (simp add: get_snat_idx_def)
  have first: "net_first net = net_value net AND (mask 32 XOR mask (32 - net_prefixlen net))"
    using assms(2) by (simp add: net_first_def net_width_def)
  have "net_value net = net_first net \<longleftrightarrow> net_value net AND mask (32 - net_prefixlen net) = 0"
    using host_bits_zero_iff [OF assms(3,4,5)] first by auto
  moreover have "get_snat_idx e' ip_cidr = get_snat_idx e ip_cidr" if "IPNetwork e' = IPNetwork e" for e'
    using that by (simp add: get_snat_idx_def)
  ultimately show ?thesis
    using val by simp
qed

lemma IPNetwork_10_0_0_0:
  "IPNetwork example_env ''10.0.0.0/24'' =
     Some \<lparr>net_version = 4, net_value = 167772160, net_prefixlen = 24\<rparr>"
  by code_simp

theorem get_snat_idx_ipv4_value_witness:
  "IPNetwork example_env ''10.0.0.0/24'' =
     Some \<lparr>net_version = 4, net_value = 167772160, net_prefixlen = 24\<rparr> \<and>
   get_snat_idx example_env ''10.0.0.0/24'' = Return 167772160 \<and>
   net_first \<lparr>net_version = 4, net_value = 167772160, net_prefixlen = 24\<rparr> = 167772160"
proof -
  let ?net = "\<lparr>net_version = 4, net_value = 167772160, net_prefixlen = 24\<rparr>"
  have zero: "(167772160::int) AND mask 8 = 0"
    by (simp add: mask_numeral)
  have t: "get_snat_idx example_env ''10.0.0.0/24'' = Return (net_value ?net) \<and>
        (get_snat_idx example_env ''10.0.0.0/24'' = Return (net_first ?net) \<longleftrightarrow>
           net_value ?net AND mask (32 - net_prefixlen ?net) = 0) \<and>
        (\<forall>e'. IPNetwork e' = IPNetwork example_env \<longrightarrow>
           get_snat_idx e' ''10.0.0.0/24'' = get_snat_idx example_env ''10.0.0.0/24'')"
    by (rule get_snat_idx_ipv4_value [OF IPNetwork_10_0_0_0]) simp_all
  from t have a: "get_snat_idx example_env ''10.0.0.0/24'' = Return 167772160"
    by simp
  have z: "net_value ?net AND mask (32 - net_prefixlen ?net) = 0"
    using zero by simp
  from t z have b: "get_snat_idx example_env ''10.0.0.0/24'' = Return (net_first ?net)"
    by blast
  have "Return (net_first ?net) = (Return 167772160 :: int outcome)"
    using a b by (rule_tac trans [OF sym]) 
  then have "net_first ?net = 167772160"
    by (simp only: outcome.inject)
  with a IPNetwork_10_0_0_0 show ?thesis
    by simp
qed

text \<open>
  C7 as stated fails where the CIDR has host bits, as the \<open>ip_cidr\<close> of a port has:
  for \<open>10.0.0.5/24\<close> the index is the integer of 10.0.0.5, and the base address of the
  network is 10.0.0.0.
\<close>

theorem get_snat_idx_not_base_address:
  "get_snat_idx example_env ''10.0.0.5/24'' = Return 167772165 \<and>
   map_option net_first (IPNetwork example_env ''10.0.0.5/24'') = Some 167772160"
  by code_simp

section \<open>Rules for the weakest precondition\<close>

lemma wp_run:
  "wp m Q E s \<Longrightarrow> m s = (out, s') \<Longrightarrow> (case out of Return a \<Rightarrow> Q a s' | Raise err \<Rightarrow> E err s')"
  by (simp add: wp_def split: outcome.splits)

lemma wp_ret: "wp (ret a) Q E s = Q a s"
  by (simp add: wp_def ret_def)

lemma wp_raise: "wp (raise err) Q E s = E err s"
  by (simp add: wp_def raise_def)

lemma wp_andthen: "wp (andthen m f) Q E s = wp m (\<lambda>a. wp (f a) Q E) E s"
  by (simp add: wp_def andthen_def split: prod.splits outcome.splits)

lemma wp_get_state: "wp get_state Q E s = Q s s"
  by (simp add: wp_def get_state_def)

lemma wp_on_ri: "wp (on_ri f) Q E (ri, w) = Q () (f ri, w)"
  by (simp add: wp_def on_ri_def)

lemma wp_on_agent:
  "wp (on_agent m) Q E (ri, w) = wp m (\<lambda>a w'. Q a (ri, w')) (\<lambda>err w'. E err (ri, w')) w"
  by (simp add: wp_def on_agent_def split: prod.splits outcome.splits)

lemma wp_at_fip_ns:
  "wp (at_fip_ns r m) Q E (ri, w) =
     wp m (\<lambda>a fns. Q a (ri, w\<lparr>heap := (heap w)[r := fns]\<rparr>))
          (\<lambda>err fns. E err (ri, w\<lparr>heap := (heap w)[r := fns]\<rparr>)) (heap w ! r)"
  by (simp add: wp_def at_fip_ns_def split: prod.splits outcome.splits)

lemma wp_call:
  "wp (call e c) Q E w =
     (if fails e c then E PrimitiveFailure (w\<lparr>trace := trace w @ [c]\<rparr>)
      else Q () (w\<lparr>trace := trace w @ [c]\<rparr>))"
  by (simp add: wp_def call_def Let_def)

lemma wp_ri_fip_ns:
  "wp ri_fip_ns Q E (ri, w) =
     (case fip_ns ri of
        None \<Rightarrow> E AttributeError (ri, w)
      | Some r \<Rightarrow> if r < length (heap w) then Q r (ri, w) else E AttributeError (ri, w))"
  by (simp add: wp_def ri_fip_ns_def split: option.splits)

lemma wp_rtr_fip_subnet_get_pair:
  "wp rtr_fip_subnet_get_pair Q E (ri, w) =
     (case rtr_fip_subnet ri of None \<Rightarrow> E AttributeError (ri, w) | Some l \<Rightarrow> Q l (ri, w))"
  by (simp add: wp_def rtr_fip_subnet_get_pair_def split: option.splits)

lemma wp_agent_gateway_port_id:
  "wp (agent_gateway_port_id r) Q E (ri, w) =
     (case agent_gateway_port (heap w ! r) of None \<Rightarrow> E TypeError (ri, w) | Some i \<Rightarrow> Q i (ri, w))"
  by (simp add: wp_def agent_gateway_port_id_def split: option.splits)

lemma wp_allocate_rtr_fip_subnet:
  "wp allocate_rtr_fip_subnet Q E (ri, w) =
     (case agent_local_subnets w of
        None \<Rightarrow> E AttributeError (ri, w)
      | Some a \<Rightarrow>
          wp (allocate (router_id ri))
            (\<lambda>l a'. Q () (ri\<lparr>rtr_fip_subnet := Some l\<rparr>, w\<lparr>agent_local_subnets := Some a'\<rparr>))
            (\<lambda>err a'. E err (ri, w\<lparr>agent_local_subnets := Some a'\<rparr>)) a)"
  by (simp add: wp_def allocate_rtr_fip_subnet_def split: option.splits prod.splits outcome.splits)

lemma wp_allocate:
  "wp (allocate key) Q E a =
     (case map_of (allocations a) key of
        Some l \<Rightarrow> Q l a
      | None \<Rightarrow>
          (case pool a of
             [] \<Rightarrow> E ExhaustedError a
           | l # ls \<Rightarrow> Q l (a\<lparr>allocations := AList.update key l (allocations a), pool := ls\<rparr>)))"
  by (simp add: wp_def allocate_def split: option.splits list.splits)

lemma wp_local_subnets_release:
  "wp (local_subnets_release key) Q E fns = Q () (fns\<lparr>local_subnets := snd (release key (local_subnets fns))\<rparr>)"
  by (simp add: wp_def local_subnets_release_def release_def split: option.splits prod.splits)

lemma wp_allocate_rule_priority:
  "wp allocate_rule_priority Q E fns =
     (case rule_priorities fns of
        [] \<Rightarrow> E ExhaustedError fns
      | p # ps \<Rightarrow> Q p (fns\<lparr>rule_priorities := ps\<rparr>))"
  by (simp add: wp_def allocate_rule_priority_def split: list.splits)

lemma wp_deallocate_rule_priority:
  "wp (deallocate_rule_priority p) Q E fns = Q () (fns\<lparr>rule_priorities := rule_priorities fns @ [p]\<rparr>)"
  by (simp add: wp_def deallocate_rule_priority_def)

lemma wp_unsubscribe:
  "wp (unsubscribe rid) Q E fns =
     Q (subscribers fns - {rid} = {}) (fns\<lparr>subscribers := subscribers fns - {rid}\<rparr>)"
  by (simp add: wp_def unsubscribe_def Let_def)

lemma wp_get_fip_ns:
  "wp (get_fip_ns e x) Q E w =
     (case map_of (fip_namespaces w) (str x) of
        Some r \<Rightarrow> Q r w
      | None \<Rightarrow> Q (length (heap w))
                 (w\<lparr>heap := heap w @ [new_FipNamespace e (str x)],
                    fip_namespaces := AList.update (str x) (length (heap w)) (fip_namespaces w)\<rparr>))"
  by (simp add: wp_def get_fip_ns_def Let_def split: option.splits)

lemma wp_del_fip_namespaces:
  "wp (del_fip_namespaces key) Q E w =
     (case map_of (fip_namespaces w) key of
        None \<Rightarrow> E KeyError w
      | Some r \<Rightarrow> Q () (w\<lparr>fip_namespaces := AList.delete key (fip_namespaces w)\<rparr>))"
  by (simp add: wp_def del_fip_namespaces_def split: option.splits)

lemmas wp_rules = wp_ret wp_raise wp_andthen wp_get_state wp_on_ri wp_on_agent wp_at_fip_ns wp_call
  wp_ri_fip_ns wp_rtr_fip_subnet_get_pair wp_agent_gateway_port_id wp_allocate_rtr_fip_subnet
  wp_allocate wp_local_subnets_release wp_allocate_rule_priority wp_deallocate_rule_priority
  wp_unsubscribe wp_get_fip_ns wp_del_fip_namespaces

section \<open>The FIP namespaces of the agent\<close>

lemma get_fip_ns_keeps:
  assumes "map_of (fip_namespaces w) k = Some r"
  shows "map_of (fip_namespaces (snd (get_fip_ns e z w))) k = Some r"
  using assms
  by (auto simp: get_fip_ns_def Let_def update_conv' split: option.splits)

lemma get_fip_ns_each_keeps:
  "map_of (fip_namespaces w) k = Some r \<Longrightarrow>
   map_of (fip_namespaces (get_fip_ns_each e xs w)) k = Some r"
  by (induction xs arbitrary: w) (simp_all add: get_fip_ns_keeps)

lemma get_fip_ns_hit:
  "map_of (fip_namespaces w) (str y) = Some r \<Longrightarrow> get_fip_ns e y w = (Return r, w)"
  by (simp add: get_fip_ns_def)

text \<open>
  C8: \<open>get_fip_ns\<close> is memoized by the external network id. A call returns a handle and
  creates a \<open>FipNamespace\<close> object only if the agent has none for the network; after it,
  however many \<open>get_fip_ns\<close> calls for whatever networks come in between, a call with an
  id of the same string form returns the identical handle and leaves the agent as it is.
\<close>

theorem get_fip_ns_memoized:
  assumes "get_fip_ns e x w = (out, w1)" and "str y = str x"
  shows "\<exists>r. out = Return r \<and>
           length (heap w1) =
             (if map_of (fip_namespaces w) (str x) = None then length (heap w) + 1
              else length (heap w)) \<and>
           (\<forall>xs. get_fip_ns e y (get_fip_ns_each e xs w1) = (Return r, get_fip_ns_each e xs w1))"
proof -
  obtain r where out: "out = Return r" and reg: "map_of (fip_namespaces w1) (str x) = Some r"
    using assms(1)
    by (auto simp: get_fip_ns_def Let_def update_conv' split: option.splits)
  have len: "length (heap w1) =
             (if map_of (fip_namespaces w) (str x) = None then length (heap w) + 1
              else length (heap w))"
    using assms(1) by (auto simp: get_fip_ns_def Let_def split: option.splits)
  have "get_fip_ns e y (get_fip_ns_each e xs w1) = (Return r, get_fip_ns_each e xs w1)" for xs
    using get_fip_ns_each_keeps [OF reg] assms(2) by (simp add: get_fip_ns_hit)
  with out len show ?thesis
    by blast
qed

lemma get_fip_ns_first:
  "get_fip_ns example_env (Unicode ''net1'') empty_world =
     (Return 0,
      empty_world\<lparr>heap := [new_FipNamespace example_env ''net1''],
                  fip_namespaces := [(''net1'', 0)]\<rparr>)"
  by (simp add: get_fip_ns_def empty_world_def Let_def)

theorem get_fip_ns_memoized_witness:
  "get_fip_ns example_env (Unicode ''net1'') empty_world =
     (Return 0,
      empty_world\<lparr>heap := [new_FipNamespace example_env ''net1''],
                  fip_namespaces := [(''net1'', 0)]\<rparr>) \<and>
   str (Str ''net1'') = str (Unicode ''net1'') \<and>
   get_fip_ns example_env (Str ''net1'')
     (get_fip_ns_each example_env [Str ''net2'']
        (empty_world\<lparr>heap := [new_FipNamespace example_env ''net1''],
                     fip_namespaces := [(''net1'', 0)]\<rparr>)) =
     (Return 0,
      get_fip_ns_each example_env [Str ''net2'']
        (empty_world\<lparr>heap := [new_FipNamespace example_env ''net1''],
                     fip_namespaces := [(''net1'', 0)]\<rparr>))"
proof -
  let ?w1 = "empty_world\<lparr>heap := [new_FipNamespace example_env ''net1''],
                        fip_namespaces := [(''net1'', 0)]\<rparr>"
  have s: "str (Str ''net1'') = str (Unicode ''net1'')"
    by simp
  from get_fip_ns_memoized [OF get_fip_ns_first s]
  have "\<forall>xs. get_fip_ns example_env (Str ''net1'') (get_fip_ns_each example_env xs ?w1) =
              (Return 0, get_fip_ns_each example_env xs ?w1)"
    by auto
  then have "get_fip_ns example_env (Str ''net1'') (get_fip_ns_each example_env [Str ''net2''] ?w1) =
              (Return 0, get_fip_ns_each example_env [Str ''net2''] ?w1)"
    by (rule spec)
  with get_fip_ns_first s show ?thesis
    by blast
qed

section \<open>Distributed floating IPs\<close>

lemma added_count:
  "wp (floating_ip_added_dist e fip fip_cidr)
      (\<lambda>_ s. dist_fip_count (fst s) = dist_fip_count ri + 1) (\<lambda>_ _. True) (ri, w)"
  by (simp add: floating_ip_added_dist_def wp_rules Let_def
      split: option.splits list.splits prod.splits)

lemma removed_count:
  "wp (floating_ip_removed_dist e fip_cidr)
      (\<lambda>_ s. dist_fip_count (fst s) = dist_fip_count ri - 1) (\<lambda>_ _. True) (ri, w)"
  by (simp add: floating_ip_removed_dist_def destroy_fip_namespace_def wp_rules Let_def
      split: option.splits list.splits prod.splits)

lemma run_op_count:
  assumes "run_op e x (ri, w) = (Return (), s')"
  shows "dist_fip_count (fst s') = dist_fip_count ri + count_change x"
proof (cases x)
  case (Added fip fip_cidr)
  with assms wp_run [OF added_count, of e fip fip_cidr ri w "Return ()" s'] show ?thesis
    by simp
next
  case (Removed fip_cidr)
  with assms wp_run [OF removed_count, of e fip_cidr ri w "Return ()" s'] show ?thesis
    by simp
qed

text \<open>
  C1, as the code has it: after a sequence of \<open>floating_ip_added_dist\<close> and
  \<open>floating_ip_removed_dist\<close> calls that all return, \<open>dist_fip_count\<close> is its value
  before the sequence plus the number of calls that added minus the number of calls that
  removed. The count is kept on its own, whatever the floating-IP table holds.
\<close>

theorem dist_fip_count_counts_calls:
  assumes "run_ops e ops (ri, w) = (Return (), (ri', w'))"
  shows "dist_fip_count ri' = dist_fip_count ri + sum_list (map count_change ops)"
  using assms
proof (induction ops arbitrary: ri w)
  case Nil
  then show ?case
    by (simp add: ret_def)
next
  case (Cons x xs)
  obtain out ri1 w1 where step: "run_op e x (ri, w) = (out, (ri1, w1))"
    by (metis surj_pair)
  with Cons.prems have out: "out = Return ()" and rest: "run_ops e xs (ri1, w1) = (Return (), (ri', w'))"
    by (auto simp: andthen_def split: outcome.splits)
  from run_op_count [of e x ri w "(ri1, w1)"] step out
  have "dist_fip_count ri1 = dist_fip_count ri + count_change x"
    by simp
  with Cons.IH [OF rest] show ?case
    by simp
qed

lemma add_remove_run:
  "run_ops example_env [Added fip1 ''203.0.113.10/32'', Removed ''203.0.113.10/32'']
     (fip_router, fip_world) =
     (Return (),
      (fip_router\<lparr>floating_ips_dict := [(''203.0.113.10'', 32768)], rtr_fip_subnet := None\<rparr>,
       fip_world\<lparr>fip_namespaces := [],
         heap := [(heap fip_world ! 0)\<lparr>subscribers := {},
                    rule_priorities := [32769, 32770, 32768],
                    local_subnets := \<lparr>allocations = [],
                       pool = [(''169.254.31.30'', ''169.254.31.31''),
                               (''169.254.31.28'', ''169.254.31.29'')]\<rparr>\<rparr>],
         trace := [IpRule_add ''qrouter-r1'' ''10.0.0.5'' 16 32768,
                   route_add_route ''fip-net1'' ''fpr-r1'' ''203.0.113.10/32'' ''169.254.31.28'',
                   send_garp_for_proxyarp ''fip-net1'' ''fg-gw1'' ''203.0.113.10'',
                   IpRule_delete ''qrouter-r1'' ''203.0.113.10'' 16 32768,
                   route_delete_route ''fip-net1'' ''fpr-r1'' ''203.0.113.10/32'' ''169.254.31.28'',
                   route_delete_gateway ''qrouter-r1'' ''rfp-r1'' (Some ''169.254.31.29'') 16,
                   del_veth ''fip-net1'' ''fpr-r1'',
                   FipNamespace_destroy 0]\<rparr>))"
  by code_simp

theorem dist_fip_count_counts_calls_witness:
  "run_ops example_env [Added fip1 ''203.0.113.10/32'', Removed ''203.0.113.10/32'']
     (fip_router, fip_world) =
     (Return (),
      (fip_router\<lparr>floating_ips_dict := [(''203.0.113.10'', 32768)], rtr_fip_subnet := None\<rparr>,
       fip_world\<lparr>fip_namespaces := [],
         heap := [(heap fip_world ! 0)\<lparr>subscribers := {},
                    rule_priorities := [32769, 32770, 32768],
                    local_subnets := \<lparr>allocations = [],
                       pool = [(''169.254.31.30'', ''169.254.31.31''),
                               (''169.254.31.28'', ''169.254.31.29'')]\<rparr>\<rparr>],
         trace := [IpRule_add ''qrouter-r1'' ''10.0.0.5'' 16 32768,
                   route_add_route ''fip-net1'' ''fpr-r1'' ''203.0.113.10/32'' ''169.254.31.28'',
                   send_garp_for_proxyarp ''fip-net1'' ''fg-gw1'' ''203.0.113.10'',
                   IpRule_delete ''qrouter-r1'' ''203.0.113.10'' 16 32768,
                   route_delete_route ''fip-net1'' ''fpr-r1'' ''203.0.113.10/32'' ''169.254.31.28'',
                   route_delete_gateway ''qrouter-r1'' ''rfp-r1'' (Some ''169.254.31.29'') 16,
                   del_veth ''fip-net1'' ''fpr-r1'',
                   FipNamespace_destroy 0]\<rparr>)) \<and>
   dist_fip_count (fip_router\<lparr>floating_ips_dict := [(''203.0.113.10'', 32768)],
                              rtr_fip_subnet := None\<rparr>) = dist_fip_count fip_router + (1 + (- 1 + 0))"
  using dist_fip_count_counts_calls [OF add_remove_run] add_remove_run
  by simp

text \<open>
  C1 as stated fails: on a router without floating IPs, adding 203.0.113.10 and removing
  it again leaves the count at 0 and one entry in the table.
\<close>

theorem dist_fip_count_differs_from_table_size:
  "dist_fip_count fip_router = 0 \<and> floating_ips_dict fip_router = [] \<and>
   fst (run_ops example_env [Added fip1 ''203.0.113.10/32'', Removed ''203.0.113.10/32'']
          (fip_router, fip_world)) = Return () \<and>
   dist_fip_count (fst (snd
     (run_ops example_env [Added fip1 ''203.0.113.10/32'', Removed ''203.0.113.10/32'']
        (fip_router, fip_world)))) = 0 \<and>
   length (floating_ips_dict (fst (snd
     (run_ops example_env [Added fip1 ''203.0.113.10/32'', Removed ''203.0.113.10/32'']
        (fip_router, fip_world))))) = 1"
  by code_simp








lemma removed_destroy:
  "wp (floating_ip_removed_dist e fip_cidr)
     (\<lambda>_ s. case s of (ri', w') \<Rightarrow>
        (\<exists>r. fip_ns ri = Some r \<and> r < length (heap w) \<and>
          (\<forall>r'. FipNamespace_destroy r' \<in> set (drop (length (trace w)) (trace w')) \<longrightarrow>
             dist_fip_count ri - 1 = 0 \<and> dist_fip_count ri' = 0 \<and>
             subscribers (heap w ! r) - {router_id ri} = {} \<and>
             subscribers (heap w' ! r) = {} \<and>
             r' = (case map_of (fip_namespaces w) (fns_ext_net_id (heap w ! r)) of
                     Some x \<Rightarrow> x | None \<Rightarrow> length (heap w))) \<and>
          ((\<exists>r'. FipNamespace_destroy r' \<in> set (drop (length (trace w)) (trace w'))) \<longleftrightarrow>
             dist_fip_count ri - 1 = 0 \<and> subscribers (heap w ! r) - {router_id ri} = {})))
     (\<lambda>_ s. case s of (ri', w') \<Rightarrow>
        (\<forall>r'. FipNamespace_destroy r' \<in> set (drop (length (trace w)) (trace w')) \<longrightarrow>
          (\<exists>r. fip_ns ri = Some r \<and> r < length (heap w) \<and>
             dist_fip_count ri - 1 = 0 \<and> dist_fip_count ri' = 0 \<and>
             subscribers (heap w ! r) - {router_id ri} = {} \<and>
             subscribers (heap w' ! r) = {} \<and>
             r' = (case map_of (fip_namespaces w) (fns_ext_net_id (heap w ! r)) of
                     Some x \<Rightarrow> x | None \<Rightarrow> length (heap w)))))
     (ri, w)"
  by (auto simp: floating_ip_removed_dist_def destroy_fip_namespace_def wp_rules Let_def
      update_conv' nth_append release_def nth_list_update get_name_def
      split: option.splits list.splits prod.splits)

text \<open>
  C4, as the code has it: \<open>floating_ip_removed_dist\<close> invokes the destruction of a FIP
  namespace only when the count of the router has reached zero and \<open>unsubscribe\<close> has
  returned true, no router being subscribed to the router's namespace object any more; and
  when the call returns, it has invoked the destruction exactly in that case. What is
  destroyed is the object the agent has registered for the network in the name of the
  namespace, a new object if it has none. When the router's namespace object is the one
  registered, that is the object destroyed, and no router is subscribed to it.
\<close>

theorem fip_namespace_destroyed_on_last_unsubscribe:
  assumes "floating_ip_removed_dist e fip_cidr (ri, w) = (out, (ri', w'))"
  shows "(\<forall>r'. FipNamespace_destroy r' \<in> set (drop (length (trace w)) (trace w')) \<longrightarrow>
            (\<exists>r. fip_ns ri = Some r \<and> r < length (heap w) \<and>
               dist_fip_count ri - 1 = 0 \<and> dist_fip_count ri' = 0 \<and>
               subscribers (heap w ! r) - {router_id ri} = {} \<and>
               subscribers (heap w' ! r) = {} \<and>
               r' = (case map_of (fip_namespaces w) (fns_ext_net_id (heap w ! r)) of
                       Some x \<Rightarrow> x | None \<Rightarrow> length (heap w)) \<and>
               (map_of (fip_namespaces w) (fns_ext_net_id (heap w ! r)) = Some r \<longrightarrow>
                  r' = r \<and> subscribers (heap w' ! r') = {}))) \<and>
         (out = Return () \<longrightarrow>
            (\<exists>r. fip_ns ri = Some r \<and> r < length (heap w) \<and>
               ((\<exists>r'. FipNamespace_destroy r' \<in> set (drop (length (trace w)) (trace w'))) \<longleftrightarrow>
                  dist_fip_count ri - 1 = 0 \<and>
                  subscribers (heap w ! r) - {router_id ri} = {})))"
  using wp_run [OF removed_destroy assms]
  by (cases out) auto

lemma last_removal_run:
  "floating_ip_removed_dist example_env ''203.0.113.10/32'' (one_fip_router, one_fip_world) =
     (Return (),
      (one_fip_router\<lparr>dist_fip_count := 0, rtr_fip_subnet := None\<rparr>,
       one_fip_world\<lparr>fip_namespaces := [],
         heap := [(heap one_fip_world ! 0)\<lparr>subscribers := {},
                    rule_priorities := [32769, 32770, 32768],
                    local_subnets := \<lparr>allocations = [],
                       pool = [(''169.254.31.30'', ''169.254.31.31''),
                               (''169.254.31.28'', ''169.254.31.29'')]\<rparr>\<rparr>],
         trace := [IpRule_delete ''qrouter-r1'' ''203.0.113.10'' 16 32768,
                   route_delete_route ''fip-net1'' ''fpr-r1'' ''203.0.113.10/32'' ''169.254.31.28'',
                   route_delete_gateway ''qrouter-r1'' ''rfp-r1'' (Some ''169.254.31.29'') 16,
                   del_veth ''fip-net1'' ''fpr-r1'',
                   FipNamespace_destroy 0]\<rparr>))"
  by code_simp

lemma shared_removal_run:
  "floating_ip_removed_dist example_env ''203.0.113.10/32'' (one_fip_router, shared_fip_world) =
     (Return (),
      (one_fip_router\<lparr>dist_fip_count := 0, rtr_fip_subnet := None\<rparr>,
       shared_fip_world\<lparr>
         heap := [(heap shared_fip_world ! 0)\<lparr>subscribers := {''r2''},
                    rule_priorities := [32769, 32770, 32768],
                    local_subnets := \<lparr>allocations = [],
                       pool = [(''169.254.31.30'', ''169.254.31.31''),
                               (''169.254.31.28'', ''169.254.31.29'')]\<rparr>\<rparr>],
         trace := [IpRule_delete ''qrouter-r1'' ''203.0.113.10'' 16 32768,
                   route_delete_route ''fip-net1'' ''fpr-r1'' ''203.0.113.10/32'' ''169.254.31.28'',
                   route_delete_gateway ''qrouter-r1'' ''rfp-r1'' (Some ''169.254.31.29'') 16,
                   del_veth ''fip-net1'' ''fpr-r1'']\<rparr>))"
  by code_simp

lemma one_fip_wf:
  "fip_ns one_fip_router = Some 0" "0 < length (heap one_fip_world)"
  "map_of (fip_namespaces one_fip_world) (fns_ext_net_id (heap one_fip_world ! 0)) = Some 0"
  "0 < length (heap shared_fip_world)"
  "map_of (fip_namespaces shared_fip_world) (fns_ext_net_id (heap shared_fip_world ! 0)) = Some 0"
  by (simp_all add: one_fip_router_def fip_router_def one_fip_world_def shared_fip_world_def
      fip_world_def)

theorem fip_namespace_destroyed_on_last_unsubscribe_witness:
  "FipNamespace_destroy 0 \<in> set (trace (snd (snd
     (floating_ip_removed_dist example_env ''203.0.113.10/32'' (one_fip_router, one_fip_world))))) \<and>
   fip_ns one_fip_router = Some 0 \<and>
   map_of (fip_namespaces one_fip_world) (fns_ext_net_id (heap one_fip_world ! 0)) = Some 0 \<and>
   dist_fip_count one_fip_router - 1 = 0 \<and>
   subscribers (heap one_fip_world ! 0) - {router_id one_fip_router} = {} \<and>
   FipNamespace_destroy 0 \<notin> set (trace (snd (snd
     (floating_ip_removed_dist example_env ''203.0.113.10/32'' (one_fip_router, shared_fip_world))))) \<and>
   subscribers (heap shared_fip_world ! 0) - {router_id one_fip_router} = {''r2''}"
proof -
  have a: "FipNamespace_destroy 0 \<in> set (trace (snd (snd
     (floating_ip_removed_dist example_env ''203.0.113.10/32'' (one_fip_router, one_fip_world)))))"
    by (simp add: last_removal_run)
  have t: "trace one_fip_world = []"
    by (simp add: one_fip_world_def fip_world_def)
  have "FipNamespace_destroy 0 \<in> set (drop (length (trace one_fip_world))
     (trace (one_fip_world\<lparr>fip_namespaces := [],
         heap := [(heap one_fip_world ! 0)\<lparr>subscribers := {},
                    rule_priorities := [32769, 32770, 32768],
                    local_subnets := \<lparr>allocations = [],
                       pool = [(''169.254.31.30'', ''169.254.31.31''),
                               (''169.254.31.28'', ''169.254.31.29'')]\<rparr>\<rparr>],
         trace := [IpRule_delete ''qrouter-r1'' ''203.0.113.10'' 16 32768,
                   route_delete_route ''fip-net1'' ''fpr-r1'' ''203.0.113.10/32'' ''169.254.31.28'',
                   route_delete_gateway ''qrouter-r1'' ''rfp-r1'' (Some ''169.254.31.29'') 16,
                   del_veth ''fip-net1'' ''fpr-r1'',
                   FipNamespace_destroy 0]\<rparr>)))"
    using t by simp
  with fip_namespace_destroyed_on_last_unsubscribe [OF last_removal_run] one_fip_wf(1)
  have b: "dist_fip_count one_fip_router - 1 = 0 \<and>
     subscribers (heap one_fip_world ! 0) - {router_id one_fip_router} = {}"
    by fastforce
  have c: "FipNamespace_destroy 0 \<notin> set (trace (snd (snd
     (floating_ip_removed_dist example_env ''203.0.113.10/32'' (one_fip_router, shared_fip_world)))))"
    by (simp add: shared_removal_run)
  have d: "subscribers (heap shared_fip_world ! 0) - {router_id one_fip_router} = {''r2''}"
    by (auto simp: shared_fip_world_def fip_world_def one_fip_router_def fip_router_def router1_def)
  from a b c d one_fip_wf(1,3) show ?thesis
    by blast
qed

text \<open>
  C4 as stated fails when the router's namespace object is not the one registered: the
  last removal on \<open>r1\<close> destroys the registered object, to which \<open>r2\<close> is subscribed
  before and after.
\<close>

theorem fip_namespace_destroyed_while_subscribed:
  "fip_ns one_fip_router = Some 0 \<and>
   fns_ext_net_id (heap stale_fip_world ! 0) = ''net1'' \<and>
   map_of (fip_namespaces stale_fip_world) ''net1'' = Some 1 \<and>
   subscribers (heap stale_fip_world ! 1) = {''r2''} \<and>
   fst (floating_ip_removed_dist example_env ''203.0.113.10/32''
          (one_fip_router, stale_fip_world)) = Return () \<and>
   trace (snd (snd (floating_ip_removed_dist example_env ''203.0.113.10/32''
          (one_fip_router, stale_fip_world)))) =
     [IpRule_delete ''qrouter-r1'' ''203.0.113.10'' 16 32768,
      route_delete_route ''fip-net1'' ''fpr-r1'' ''203.0.113.10/32'' ''169.254.31.28'',
      route_delete_gateway ''qrouter-r1'' ''rfp-r1'' (Some ''169.254.31.29'') 16,
      del_veth ''fip-net1'' ''fpr-r1'',
      FipNamespace_destroy 1] \<and>
   subscribers (heap (snd (snd (floating_ip_removed_dist example_env ''203.0.113.10/32''
          (one_fip_router, stale_fip_world)))) ! 1) = {''r2''}"
  by code_simp

section \<open>SNAT redirection\<close>

text \<open>
  C6, as the code has it: when no collaborator fails, \<open>_snat_redirect_add\<close> adds the
  default route in the table of the subnet, adds the policy rule for the CIDR at the
  priority of the table index and switches \<open>send_redirects\<close> off on the internal device;
  \<open>_snat_redirect_remove\<close> deletes that route and that rule, and does nothing else.
\<close>

theorem snat_redirect_remove_effects:
  assumes "port_ip_cidr sn_port = Some ip_cidr"
    and "get_snat_idx e ip_cidr = Return idx"
    and "\<forall>c. \<not> fails e c"
  shows "snat_redirect_add e ri gateway sn_port sn_int w =
           (Return (),
            w\<lparr>trace := trace w @
               [route_add_gateway (ns_name ri) sn_int gateway idx,
                IpRule_add (ns_name ri) ip_cidr idx idx,
                netns_execute (ns_name ri)
                  [''sysctl'', ''-w'', ''net.ipv4.conf.'' @ sn_int @ ''.send_redirects=0'']]\<rparr>) \<and>
         snat_redirect_remove e ri sn_port sn_int w =
           (Return (),
            w\<lparr>trace := trace w @
               [route_delete_gateway (ns_name ri) sn_int None idx,
                IpRule_delete (ns_name ri) ip_cidr idx idx]\<rparr>)"
  using assms
  by (simp add: snat_redirect_add_def snat_redirect_remove_def try_except_def andthen_def
      sn_port_ip_cidr_def ret_def lift_outcome_def call_def Let_def)

lemma get_snat_idx_port1: "get_snat_idx example_env ''10.0.0.1/24'' = Return 167772161"
  by code_simp

theorem snat_redirect_remove_effects_witness:
  "port_ip_cidr port1 = Some ''10.0.0.1/24'' \<and>
   get_snat_idx example_env ''10.0.0.1/24'' = Return 167772161 \<and>
   (\<forall>c. \<not> fails example_env c) \<and>
   snat_redirect_add example_env router1 ''10.0.0.254'' port1 ''qr-p1'' empty_world =
     (Return (),
      empty_world\<lparr>trace :=
         [route_add_gateway ''qrouter-r1'' ''qr-p1'' ''10.0.0.254'' 167772161,
          IpRule_add ''qrouter-r1'' ''10.0.0.1/24'' 167772161 167772161,
          netns_execute ''qrouter-r1''
            [''sysctl'', ''-w'', ''net.ipv4.conf.qr-p1.send_redirects=0'']]\<rparr>)"
proof -
  have p: "port_ip_cidr port1 = Some ''10.0.0.1/24''"
    by (simp add: port1_def)
  have f: "\<forall>c. \<not> fails example_env c"
    by (simp add: example_env_def)
  show ?thesis
    using snat_redirect_remove_effects [OF p get_snat_idx_port1 f,
        of router1 "''10.0.0.254''" "''qr-p1''" empty_world] p f get_snat_idx_port1
    by (simp add: router1_def empty_world_def)
qed

text \<open>
  C6 as stated fails: the calls of an add followed by a remove end with the deletion of
  the rule; \<open>send_redirects\<close> is not switched on again.
\<close>

theorem snat_redirect_remove_no_sysctl:
  "trace (snd (snat_redirect_remove example_env router1 port1 ''qr-p1''
     (snd (snat_redirect_add example_env router1 ''10.0.0.254'' port1 ''qr-p1'' empty_world)))) =
     [route_add_gateway ''qrouter-r1'' ''qr-p1'' ''10.0.0.254'' 167772161,
      IpRule_add ''qrouter-r1'' ''10.0.0.1/24'' 167772161 167772161,
      netns_execute ''qrouter-r1'' [''sysctl'', ''-w'', ''net.ipv4.conf.qr-p1.send_redirects=0''],
      route_delete_gateway ''qrouter-r1'' ''qr-p1'' None 167772161,
      IpRule_delete ''qrouter-r1'' ''10.0.0.1/24'' 167772161 167772161]"
  by code_simp

section \<open>ARP entries\<close>

text \<open>
  C9: \<open>_update_arp_entry\<close> returns normally on every input, whatever fails; and if a
  collaborator it called has failed, the agent's \<open>fullsync\<close> flag is set.
\<close>

theorem update_arp_entry_never_raises:
  "fst (update_arp_entry e ri ip mac subnet_id operation w) = Return () \<and>
   ((\<exists>c \<in> set (drop (length (trace w))
                  (trace (snd (update_arp_entry e ri ip mac subnet_id operation w)))). fails e c)
      \<longrightarrow> fullsync (snd (update_arp_entry e ri ip mac subnet_id operation w)))"
  by (auto simp: update_arp_entry_def try_except_def andthen_def call_def LOG_def modify_def
      ret_def raise_def Let_def split: option.splits)

lemma arp_fail_run:
  "update_arp_entry failing_env router1 ''10.0.0.5'' ''fa:16:3e:00:00:01'' ''s1'' ''add'' empty_world =
     (Return (),
      empty_world\<lparr>fullsync := True,
        trace := [neigh_add ''qrouter-r1'' ''qr-p1'' 4 ''10.0.0.5'' ''fa:16:3e:00:00:01''],
        logged := [LOG_exception ''DVR: Failed updating arp entry'']\<rparr>)"
  by code_simp

theorem update_arp_entry_never_raises_witness:
  "fails failing_env (neigh_add ''qrouter-r1'' ''qr-p1'' 4 ''10.0.0.5'' ''fa:16:3e:00:00:01'') \<and>
   fst (update_arp_entry failing_env router1 ''10.0.0.5'' ''fa:16:3e:00:00:01'' ''s1'' ''add''
          empty_world) = Return () \<and>
   fullsync (snd (update_arp_entry failing_env router1 ''10.0.0.5'' ''fa:16:3e:00:00:01'' ''s1''
          ''add'' empty_world))"
proof -
  have f: "fails failing_env (neigh_add ''qrouter-r1'' ''qr-p1'' 4 ''10.0.0.5'' ''fa:16:3e:00:00:01'')"
    by (simp add: failing_env_def)
  have "fst (update_arp_entry failing_env router1 ''10.0.0.5'' ''fa:16:3e:00:00:01'' ''s1'' ''add''
          empty_world) = Return () \<and>
    ((\<exists>c \<in> set (drop (length (trace empty_world))
                  (trace (snd (update_arp_entry failing_env router1 ''10.0.0.5''
                     ''fa:16:3e:00:00:01'' ''s1'' ''add'' empty_world)))). fails failing_env c)
      \<longrightarrow> fullsync (snd (update_arp_entry failing_env router1 ''10.0.0.5''
                     ''fa:16:3e:00:00:01'' ''s1'' ''add'' empty_world)))"
    by (rule update_arp_entry_never_raises)
  moreover have "\<exists>c \<in> set (drop (length (trace empty_world))
                  (trace (snd (update_arp_entry failing_env router1 ''10.0.0.5''
                     ''fa:16:3e:00:00:01'' ''s1'' ''add'' empty_world)))). fails failing_env c"
    using f by (simp add: arp_fail_run) (simp add: empty_world_def)
  ultimately show ?thesis
    using f by blast
qed

section \<open>HA state changes\<close>

text \<open>
  C10: for a router the agent manages, \<open>_update_metadata_proxy\<close> makes one call to the
  metadata driver: the spawn of the monitored proxy if the state is the string \<open>master\<close>,
  its destruction for any other string.
\<close>

theorem update_metadata_proxy_master_only:
  assumes "router_info w = Some d" and "map_of d rid = Some ri"
  shows "trace (snd (update_metadata_proxy e rid state w)) =
           trace w @ [if state = ''master''
                      then spawn_monitored_metadata_proxy (ns_name ri) (router_id ri)
                      else destroy_monitored_metadata_proxy (router_id ri) (ns_name ri)]"
  using assms
  by (simp add: update_metadata_proxy_def router_info_getitem_def andthen_def LOG_def call_def Let_def)

theorem update_metadata_proxy_master_only_witness:
  "router_info managing_world = Some [(''r1'', router1)] \<and>
   map_of [(''r1'', router1)] ''r1'' = Some router1 \<and>
   trace (snd (update_metadata_proxy example_env ''r1'' ''unknown'' managing_world)) =
     [destroy_monitored_metadata_proxy ''r1'' ''qrouter-r1''] \<and>
   trace (snd (update_metadata_proxy example_env ''r1'' ''master'' managing_world)) =
     [spawn_monitored_metadata_proxy ''qrouter-r1'' ''r1'']"
proof -
  have ri: "router_info managing_world = Some [(''r1'', router1)]"
    by (simp add: managing_world_def)
  have m: "map_of [(''r1'', router1)] ''r1'' = Some router1"
    by simp
  show ?thesis
    using update_metadata_proxy_master_only [OF ri m, of example_env "''unknown''"]
      update_metadata_proxy_master_only [OF ri m, of example_env "''master''"] ri m
    by (simp add: managing_world_def empty_world_def router1_def)
qed

text \<open>
  C5: the agent manages no router and is notified about the router \<open>r1\<close>. The state
  change raises \<open>KeyError\<close>: the handler of \<open>_update_metadata_proxy\<close> is for
  \<open>AttributeError\<close>. The ARP notifications return and leave the agent as it is, without a
  log line.
\<close>

theorem unmanaged_router_state_change_raises:
  "enqueue_state_change example_env ''r1'' ''master'' empty_world =
     (Raise KeyError,
      empty_world\<lparr>logged := [LOG_info ''Router %(router_id)s transitioned to %(state)s'']\<rparr>) \<and>
   update_metadata_proxy example_env ''r1'' ''master'' empty_world = (Raise KeyError, empty_world) \<and>
   add_arp_entry example_env
     \<lparr>payload_arp_table = \<lparr>arp_ip_address = ''10.0.0.5'', arp_mac_address = ''fa:16:3e:00:00:01'',
                            arp_subnet_id = ''s1''\<rparr>,
      payload_router_id = ''r1''\<rparr> empty_world = (Return (), empty_world) \<and>
   del_arp_entry example_env
     \<lparr>payload_arp_table = \<lparr>arp_ip_address = ''10.0.0.5'', arp_mac_address = ''fa:16:3e:00:00:01'',
                            arp_subnet_id = ''s1''\<rparr>,
      payload_router_id = ''r1''\<rparr> empty_world = (Return (), empty_world)"
  by (simp add: enqueue_state_change_def update_metadata_proxy_def router_info_getitem_def
      andthen_def LOG_def add_arp_entry_def del_arp_entry_def router_info_get_def ret_def
      empty_world_def Let_def)

end
